theory Spec2Isabelle
  imports Complex_Main "HOL-Library.Product_Lexorder" "HOL-Library.Multiset"
begin

section \<open>Bowyer-Watson triangulation and its Voronoi dual (src/Bowyer/bowyer_watson.py)\<close>

text \<open>
  Coordinates are modelled as exact rationals: every integer and every finite double is
  one, and equality, ordering and sorting of such values are those of the rationals.
  The source computes with binary floating point. The rounding of its sums, products,
  squares and quotients, and the \<^verbatim>\<open>OverflowError\<close> that \<^verbatim>\<open>**\<close> raises on huge values, are
  not represented: the formulas below are evaluated exactly, so the value of a computed
  circumcenter, radius or super-vertex is that of the source only where the source's
  arithmetic is exact. The theorems of this development concern what does not depend on
  rounding: the set, list and dictionary structure of the cavity boundary and of the
  Voronoi derivation, and the origin of the errors of a run. The concrete inputs used
  are ones on which every arithmetic operation is exact (zeros and small integers).

  A Python \<^verbatim>\<open>set\<close> is modelled as a list without repetitions, read in list order where
  the source iterates over it; the order-independence of what the source computes from
  such a set is proved where a statement depends on it.
\<close>

subsection \<open>Data model\<close>

text \<open>\<^verbatim>\<open>Point = namedtuple('Point', ['x', 'y'])\<close>: a tuple, compared lexicographically.\<close>

type_synonym point = "rat \<times> rat"

definition Point :: "rat \<Rightarrow> rat \<Rightarrow> point" where
  "Point a b = (a, b)"

abbreviation x :: "point \<Rightarrow> rat" where "x p \<equiv> fst p"
abbreviation y :: "point \<Rightarrow> rat" where "y p \<equiv> snd p"

text \<open>\<^verbatim>\<open>Edge = namedtuple('Edge', ['v1', 'v2'])\<close>\<close>

type_synonym edge = "point \<times> point"

definition Edge :: "point \<Rightarrow> point \<Rightarrow> edge" where
  "Edge a b = (a, b)"

abbreviation v1 :: "edge \<Rightarrow> point" where "v1 e \<equiv> fst e"
abbreviation v2 :: "edge \<Rightarrow> point" where "v2 e \<equiv> snd e"

text \<open>A float that may be \<^verbatim>\<open>float('inf')\<close>.\<close>

datatype extended = Finite rat | Infinity

fun less_extended :: "rat \<Rightarrow> extended \<Rightarrow> bool" where
  "less_extended d (Finite r) = (d < r)"
| "less_extended d Infinity = True"

text \<open>\<^verbatim>\<open>tuple(sorted((v1, v2, v3)))\<close> and \<^verbatim>\<open>tuple(sorted((v1, v2)))\<close>.\<close>

definition sorted3 :: "point \<Rightarrow> point \<Rightarrow> point \<Rightarrow> point \<times> point \<times> point" where
  "sorted3 a b c = (let s = sort [a, b, c] in (s ! 0, s ! 1, s ! 2))"

definition sorted2 :: "point \<Rightarrow> point \<Rightarrow> point \<times> point" where
  "sorted2 a b = (let s = sort [a, b] in (s ! 0, s ! 1))"

record triangle =
  vertices :: "point \<times> point \<times> point"
  circumcenter :: "point option"
  circumradius_sq :: extended

text \<open>
  \<^verbatim>\<open>Triangle._calculate_circumcircle\<close>, on the stored vertex tuple: the formulas of
  the source, evaluated exactly.
\<close>

definition calculate_circumcircle :: "point \<times> point \<times> point \<Rightarrow> point option \<times> extended" where
  "calculate_circumcircle vs =
     (case vs of (p1, p2, p3) \<Rightarrow>
        let D = 2 * (x p1 * (y p2 - y p3) + x p2 * (y p3 - y p1) + x p3 * (y p1 - y p2)) in
        if \<bar>D\<bar> < 1 / 10 ^ 10 then (None, Infinity)
        else
          let p1_sq = (x p1)\<^sup>2 + (y p1)\<^sup>2;
              p2_sq = (x p2)\<^sup>2 + (y p2)\<^sup>2;
              p3_sq = (x p3)\<^sup>2 + (y p3)\<^sup>2;
              ux = (p1_sq * (y p2 - y p3) + p2_sq * (y p3 - y p1) + p3_sq * (y p1 - y p2)) / D;
              uy = (p1_sq * (x p3 - x p2) + p2_sq * (x p1 - x p3) + p3_sq * (x p2 - x p1)) / D;
              center = Point ux uy;
              radius_sq = (x p1 - ux)\<^sup>2 + (y p1 - uy)\<^sup>2
          in (Some center, Finite radius_sq))"

text \<open>\<^verbatim>\<open>Triangle.__init__\<close>\<close>

definition Triangle :: "point \<Rightarrow> point \<Rightarrow> point \<Rightarrow> triangle" where
  "Triangle a b c =
     (let vs = sorted3 a b c; cr = calculate_circumcircle vs
      in \<lparr>vertices = vs, circumcenter = fst cr, circumradius_sq = snd cr\<rparr>)"

text \<open>\<^verbatim>\<open>Triangle.point_in_circumcircle\<close>, with the squared distance evaluated exactly.\<close>

definition point_in_circumcircle :: "triangle \<Rightarrow> point \<Rightarrow> bool" where
  "point_in_circumcircle t p =
     (case circumcenter t of
        None \<Rightarrow> False
      | Some c \<Rightarrow>
          let dist_sq = (x p - x c)\<^sup>2 + (y p - y c)\<^sup>2
          in less_extended dist_sq (circumradius_sq t))"

text \<open>\<^verbatim>\<open>triangle.vertices[i]\<close> for \<^verbatim>\<open>i in range(3)\<close>.\<close>

definition vertex :: "triangle \<Rightarrow> nat \<Rightarrow> point" where
  "vertex t i = (case vertices t of (a, b, c) \<Rightarrow> if i = 0 then a else if i = 1 then b else c)"

text \<open>The edge built in the body of \<^verbatim>\<open>for i in range(3)\<close> (lines 104-106 and 157-159).\<close>

definition edge_at :: "triangle \<Rightarrow> nat \<Rightarrow> edge" where
  "edge_at t i = (let s = sorted2 (vertex t i) (vertex t ((i + 1) mod 3)) in Edge (fst s) (snd s))"

definition triangle_edges :: "triangle \<Rightarrow> edge list" where
  "triangle_edges t = map (edge_at t) [0, 1, 2]"

subsection \<open>Sets as lists without repetitions\<close>

definition set_add :: "'a \<Rightarrow> 'a list \<Rightarrow> 'a list" where
  "set_add a s = (if a \<in> set s then s else s @ [a])"

definition set_remove :: "'a \<Rightarrow> 'a list \<Rightarrow> 'a list" where
  "set_remove a s = removeAll a s"

definition set_minus :: "'a list \<Rightarrow> 'a list \<Rightarrow> 'a list" where
  "set_minus s r = filter (\<lambda>a. a \<notin> set r) s"

subsection \<open>The Delaunay engine\<close>

datatype error = ValueError

text \<open>\<^verbatim>\<open>min(...)\<close> and \<^verbatim>\<open>max(...)\<close> of a sequence: \<^verbatim>\<open>ValueError\<close> when it is empty.\<close>

definition py_min :: "rat list \<Rightarrow> error + rat" where
  "py_min s = (case s of [] \<Rightarrow> Inl ValueError | a # r \<Rightarrow> Inr (fold min r a))"

definition py_max :: "rat list \<Rightarrow> error + rat" where
  "py_max s = (case s of [] \<Rightarrow> Inl ValueError | a # r \<Rightarrow> Inr (fold max r a))"

text \<open>\<^verbatim>\<open>BowyerWatson._create_super_triangle\<close>: the triangle and the set of its vertices.\<close>

definition create_super_triangle :: "point list \<Rightarrow> error + (triangle \<times> point list)" where
  "create_super_triangle points =
     (case py_min (map x points) of Inl e \<Rightarrow> Inl e | Inr min_x \<Rightarrow>
      case py_max (map x points) of Inl e \<Rightarrow> Inl e | Inr max_x \<Rightarrow>
      case py_min (map y points) of Inl e \<Rightarrow> Inl e | Inr min_y \<Rightarrow>
      case py_max (map y points) of Inl e \<Rightarrow> Inl e | Inr max_y \<Rightarrow>
        let dx = max_x - min_x;
            dy = max_y - min_y;
            delta_max = max dx dy;
            mid_x = (min_x + max_x) / 2;
            mid_y = (min_y + max_y) / 2;
            sv1 = Point (mid_x - 20 * delta_max) (mid_y - 10 * delta_max);
            sv2 = Point (mid_x + 20 * delta_max) (mid_y - 10 * delta_max);
            sv3 = Point mid_x (mid_y + 20 * delta_max)
        in Inr (Triangle sv1 sv2 sv3, fold set_add [sv1, sv2, sv3] []))"

text \<open>Lines 94-98: the triangles whose circumcircle contains the point.\<close>

definition bad_triangles :: "triangle list \<Rightarrow> point \<Rightarrow> triangle list" where
  "bad_triangles triangulation p =
     fold (\<lambda>t bad. if point_in_circumcircle t p then set_add t bad else bad) triangulation []"

text \<open>Lines 107-110: insert the edge if absent, remove it if present.\<close>

definition toggle :: "edge \<Rightarrow> edge list \<Rightarrow> edge list" where
  "toggle e boundary = (if e \<in> set boundary then set_remove e boundary else set_add e boundary)"

text \<open>Lines 101-110: the boundary of the cavity.\<close>

definition polygon_boundary :: "triangle list \<Rightarrow> edge list" where
  "polygon_boundary bad = fold (\<lambda>t boundary. fold (\<lambda>i. toggle (edge_at t i)) [0, 1, 2] boundary) bad []"

text \<open>Lines 93-118: the body of the loop over the input points.\<close>

definition insert_point :: "point \<Rightarrow> triangle list \<Rightarrow> triangle list" where
  "insert_point p triangulation =
     (let bad = bad_triangles triangulation p;
          boundary = polygon_boundary bad;
          remaining = set_minus triangulation bad
      in fold (\<lambda>e tr. set_add (Triangle (v1 e) (v2 e) p) tr) boundary remaining)"

text \<open>Line 121: the triangles with no vertex among the super-vertices.\<close>

definition remove_super :: "point list \<Rightarrow> triangle list \<Rightarrow> triangle list" where
  "remove_super super_vertices triangulation =
     filter (\<lambda>tri. \<not> (\<exists>i \<in> {0, 1, 2}. vertex tri i \<in> set super_vertices)) triangulation"

subsection \<open>The Voronoi dual\<close>

text \<open>Lines 160-162: the dictionary from an edge to the list of its triangles, in insertion order.\<close>

definition dict_append :: "edge \<Rightarrow> triangle \<Rightarrow> (edge \<times> triangle list) list \<Rightarrow> (edge \<times> triangle list) list" where
  "dict_append e t d =
     (let d' = (if e \<notin> fst ` set d then d @ [(e, [])] else d)
      in map (\<lambda>(k, ts). if k = e then (k, ts @ [t]) else (k, ts)) d')"

definition edge_to_triangles :: "triangle list \<Rightarrow> (edge \<times> triangle list) list" where
  "edge_to_triangles triangulation =
     fold (\<lambda>tri d. fold (\<lambda>i. dict_append (edge_at tri i) tri) [0, 1, 2] d) triangulation []"

text \<open>Lines 165-170: the body of the loop over the dictionary's items.\<close>

definition voronoi_edge_of :: "triangle list \<Rightarrow> (point \<times> point) list" where
  "voronoi_edge_of triangles =
     (if length triangles = 2 then
        (case (circumcenter (triangles ! 0), circumcenter (triangles ! 1)) of
           (Some p1, Some p2) \<Rightarrow> [(p1, p2)]
         | _ \<Rightarrow> [])
      else [])"

text \<open>\<^verbatim>\<open>BowyerWatson._derive_voronoi_diagram\<close>: the edges appended to \<^verbatim>\<open>voronoi_edges\<close>.\<close>

definition derive_voronoi_diagram :: "triangle list \<Rightarrow> (point \<times> point) list" where
  "derive_voronoi_diagram triangulation =
     concat (map (\<lambda>(e, triangles). voronoi_edge_of triangles) (edge_to_triangles triangulation))"

text \<open>\<^verbatim>\<open>BowyerWatson.run\<close>: the final triangulation and the Voronoi edges.\<close>

definition triangulate :: "point list \<Rightarrow> error + triangle list" where
  "triangulate points =
     (case create_super_triangle points of
        Inl e \<Rightarrow> Inl e
      | Inr (super_triangle, super_vertices) \<Rightarrow>
          Inr (remove_super super_vertices
                 (fold insert_point points (set_add super_triangle []))))"

definition run :: "point list \<Rightarrow> error + (triangle list \<times> (point \<times> point) list)" where
  "run points =
     (case triangulate points of
        Inl e \<Rightarrow> Inl e
      | Inr triangulation \<Rightarrow> Inr (triangulation, derive_voronoi_diagram triangulation))"

subsection \<open>The cavity boundary by counting (design note on the toggle set)\<close>




subsection \<open>Incidence of edges and triangles (Voronoi dual deriver)\<close>










section \<open>The cavity boundary\<close>

lemma fold_fold_concat:
  "fold (\<lambda>t acc. fold f (g t) acc) xs acc = fold f (concat (map g xs)) acc"
  by (induction xs arbitrary: acc) simp_all

lemma toggle_distinct: "distinct b \<Longrightarrow> distinct (toggle e b)"
  by (simp add: toggle_def set_remove_def set_add_def distinct_removeAll)


lemma fold_toggle_distinct: "distinct b \<Longrightarrow> distinct (fold toggle es b)"
  by (induction es arbitrary: b) (simp_all add: toggle_distinct)


lemma polygon_boundary_concat:
  "polygon_boundary bad = fold toggle (concat (map triangle_edges bad)) []"
proof -
  have "(\<lambda>t boundary. fold (\<lambda>i. toggle (edge_at t i)) [0, 1, 2] boundary)
          = (\<lambda>t boundary. fold toggle (triangle_edges t) boundary)"
    by (simp add: triangle_edges_def fun_eq_iff)
  then show ?thesis
    by (simp only: polygon_boundary_def fold_fold_concat)
qed


lemma polygon_boundary_distinct: "distinct (polygon_boundary bad)"
  by (simp add: polygon_boundary_concat fold_toggle_distinct)






section \<open>The Voronoi dual\<close>

lemma sorted2_eq: "sorted2 a b = (if a \<le> b then (a, b) else (b, a))"
  by (simp add: sorted2_def)

lemma edge_ends: "{fst (sorted2 a b), snd (sorted2 a b)} = {a, b}"
  by (auto simp: sorted2_eq)



lemma fold_set_add_snoc: "fold set_add (xs @ [a]) acc = set_add a (fold set_add xs acc)"
  by simp













section \<open>Failure of a run\<close>

lemma py_min_Min: "s \<noteq> [] \<Longrightarrow> py_min s = Inr (Min (set s))"
proof (cases s)
  case Nil
  assume "s \<noteq> []"
  with Nil show ?thesis by simp
next
  case (Cons a r)
  then show ?thesis
    by (simp only: py_min_def list.case Min.set_eq_fold)
qed

lemma py_max_Max: "s \<noteq> [] \<Longrightarrow> py_max s = Inr (Max (set s))"
proof (cases s)
  case Nil
  assume "s \<noteq> []"
  with Nil show ?thesis by simp
next
  case (Cons a r)
  then show ?thesis
    by (simp only: py_max_def list.case Max.set_eq_fold)
qed

lemma create_super_triangle_empty: "create_super_triangle [] = Inl ValueError"
  by (simp add: create_super_triangle_def py_min_def)

lemma create_super_triangle_nonempty:
  assumes "ps \<noteq> []"
  shows "create_super_triangle ps =
     (let min_x = Min (set (map x ps)); max_x = Max (set (map x ps));
          min_y = Min (set (map y ps)); max_y = Max (set (map y ps));
          delta_max = max (max_x - min_x) (max_y - min_y);
          mid_x = (min_x + max_x) / 2;
          mid_y = (min_y + max_y) / 2;
          sv1 = (mid_x - 20 * delta_max, mid_y - 10 * delta_max);
          sv2 = (mid_x + 20 * delta_max, mid_y - 10 * delta_max);
          sv3 = (mid_x, mid_y + 20 * delta_max)
      in Inr (Triangle sv1 sv2 sv3, fold set_add [sv1, sv2, sv3] []))"
proof -
  from assms have n: "map x ps \<noteq> []" "map y ps \<noteq> []" by simp_all
  show ?thesis
    unfolding create_super_triangle_def
    by (simp only: py_min_Min [OF n(1)] py_max_Max [OF n(1)] py_min_Min [OF n(2)]
          py_max_Max [OF n(2)] sum.case Let_def Point_def)
qed

text \<open>
  C2. The run raises no \<^verbatim>\<open>DegenerateInputError\<close>: no such exception exists in the source,
  and neither the number of input points nor their collinearity is tested anywhere. The
  only exception that the statements of the run raise by themselves is the
  \<^verbatim>\<open>ValueError\<close> of \<^verbatim>\<open>min\<close> on an empty sequence, in \<^verbatim>\<open>_create_super_triangle\<close>:
  triangulate fails with \<^verbatim>\<open>ValueError\<close> exactly when no input point is supplied. (What
  the floating-point arithmetic may raise on huge coordinates is not represented here;
  it is an \<^verbatim>\<open>OverflowError\<close>, not a \<^verbatim>\<open>ValueError\<close>.)
\<close>

theorem triangulate_ValueError_iff:
  "(triangulate ps = Inl ValueError) = (ps = [])"
proof (cases "ps = []")
  case True
  then show ?thesis
    by (simp add: triangulate_def create_super_triangle_empty)
next
  case False
  then show ?thesis
    by (simp add: triangulate_def create_super_triangle_nonempty Let_def)
qed

text \<open>
  A single input point is fewer than 3 points, and the run does not fail on it: the
  three vertices of the super-triangle coincide with the point, the super-triangle has
  no circumcenter (D = 0), so it is never a bad triangle, and the cleanup removes it.
  The result is the empty triangulation. Every result of the arithmetic of this run is
  zero, hence exact.
\<close>

theorem triangulate_single_point:
  "triangulate [(0, 0)] = Inr []"
proof -
  have s: "create_super_triangle [(0, 0)] = Inr (Triangle (0, 0) (0, 0) (0, 0), [(0, 0)])"
    by (simp add: create_super_triangle_def py_min_def py_max_def Let_def Point_def set_add_def)
  have n: "circumcenter (Triangle (0, 0) (0, 0) (0, 0)) = None"
    by (simp add: Triangle_def calculate_circumcircle_def Let_def sorted3_def)
  have i: "insert_point (0, 0) [Triangle (0, 0) (0, 0) (0, 0)] = [Triangle (0, 0) (0, 0) (0, 0)]"
    by (simp add: insert_point_def bad_triangles_def point_in_circumcircle_def n
          polygon_boundary_def set_minus_def)
  have v: "vertex (Triangle (0, 0) (0, 0) (0, 0)) 0 = (0, 0)"
    by (simp add: vertex_def Triangle_def Let_def sorted3_def)
  show ?thesis
    by (simp add: triangulate_def s set_add_def i remove_super_def v)
qed

section \<open>The number of Voronoi edges\<close>







section \<open>Degenerate Voronoi edges\<close>



end
